theory Spec2Isabelle
  imports Main
begin

section \<open>JavaScript values read by the form-structure deriver\<close>

text \<open>
  The deriver receives the existing row as \<^verbatim>\<open>row?: any\<close>. The rows are the data of a
  GraphQL answer, so a value is undefined, null, a boolean, a number, a string, an array
  or a plain object. Numbers are kept as integers: the code only tests them for
  truthiness. A string is its list of code units. An object is its list of own
  properties; a key occurs once.
\<close>

datatype error = TypeError

datatype jsval =
    JUndefined
  | JNull
  | JBool bool
  | JNum int
  | JStr string
  | JArr "jsval list"
  | JObj "(string \<times> jsval) list"

text \<open>
  Reading a property of such a value gives data again, or a member that the value
  inherits from the standard library: a built-in function or a prototype object. These
  are not data of a row; \<open>Native\<close> names them by their place in the library
  (\<^verbatim>\<open>Object.prototype.toString\<close>, \<^verbatim>\<open>Array\<close>, \<^verbatim>\<open>Array.prototype\<close>).
\<close>

datatype jsres =
    Data jsval
  | Native string

text \<open>Truthiness, as \<^verbatim>\<open>!v\<close>, \<^verbatim>\<open>v ? a : b\<close> and \<^verbatim>\<open>v && w\<close> test it.\<close>

fun truthy :: "jsval \<Rightarrow> bool" where
  "truthy JUndefined = False"
| "truthy JNull = False"
| "truthy (JBool b) = b"
| "truthy (JNum n) = (n \<noteq> 0)"
| "truthy (JStr s) = (s \<noteq> [])"
| "truthy (JArr xs) = True"
| "truthy (JObj kvs) = True"

fun truthy_res :: "jsres \<Rightarrow> bool" where
  "truthy_res (Data v) = truthy v"
| "truthy_res (Native n) = True"

fun nullish :: "jsval \<Rightarrow> bool" where
  "nullish JUndefined = True"
| "nullish JNull = True"
| "nullish v = False"

subsection \<open>Members inherited from the standard prototypes\<close>

text \<open>
  The string-keyed members of the prototypes of the ECMAScript 2023 standard library,
  with the additions of its annex B. Every value that is neither undefined nor null
  inherits those of \<^verbatim>\<open>Object.prototype\<close>; arrays, strings, numbers and booleans inherit
  those of their own prototype first.
\<close>

definition object_prototype_members :: "string list" where
  "object_prototype_members =
     [''constructor'', ''__proto__'', ''hasOwnProperty'', ''isPrototypeOf'',
      ''propertyIsEnumerable'', ''toLocaleString'', ''toString'', ''valueOf'',
      ''__defineGetter__'', ''__defineSetter__'', ''__lookupGetter__'', ''__lookupSetter__'']"

definition array_prototype_members :: "string list" where
  "array_prototype_members =
     [''at'', ''concat'', ''copyWithin'', ''entries'', ''every'', ''fill'', ''filter'',
      ''find'', ''findIndex'', ''findLast'', ''findLastIndex'', ''flat'', ''flatMap'',
      ''forEach'', ''includes'', ''indexOf'', ''join'', ''keys'', ''lastIndexOf'', ''map'',
      ''pop'', ''push'', ''reduce'', ''reduceRight'', ''reverse'', ''shift'', ''slice'',
      ''some'', ''sort'', ''splice'', ''toLocaleString'', ''toReversed'', ''toSorted'',
      ''toSpliced'', ''toString'', ''unshift'', ''values'', ''with'']"

definition string_prototype_members :: "string list" where
  "string_prototype_members =
     [''at'', ''charAt'', ''charCodeAt'', ''codePointAt'', ''concat'', ''endsWith'',
      ''includes'', ''indexOf'', ''lastIndexOf'', ''localeCompare'', ''match'', ''matchAll'',
      ''normalize'', ''padEnd'', ''padStart'', ''repeat'', ''replace'', ''replaceAll'',
      ''search'', ''slice'', ''split'', ''startsWith'', ''substring'',
      ''toLocaleLowerCase'', ''toLocaleUpperCase'', ''toLowerCase'', ''toString'',
      ''toUpperCase'', ''trim'', ''trimEnd'', ''trimStart'', ''valueOf'',
      ''substr'', ''anchor'', ''big'', ''blink'', ''bold'', ''fixed'', ''fontcolor'',
      ''fontsize'', ''italics'', ''link'', ''small'', ''strike'', ''sub'', ''sup'',
      ''trimLeft'', ''trimRight'']"

definition number_prototype_members :: "string list" where
  "number_prototype_members =
     [''toExponential'', ''toFixed'', ''toLocaleString'', ''toPrecision'', ''toString'',
      ''valueOf'']"

definition boolean_prototype_members :: "string list" where
  "boolean_prototype_members = [''toString'', ''valueOf'']"

text \<open>
  The member named \<open>k\<close> that a value inherits when it has no own property of that name:
  \<open>proto\<close> is the constructor of the value's prototype and \<open>members\<close> are the members of
  that prototype.
\<close>

definition inherited_member :: "string \<Rightarrow> string list \<Rightarrow> string \<Rightarrow> jsres" where
  "inherited_member proto members k =
     (if k = ''__proto__'' then Native (proto @ ''.prototype'')
      else if k = ''constructor'' then Native proto
      else if k \<in> set members then Native (proto @ ''.prototype.'' @ k)
      else if k \<in> set object_prototype_members then Native (''Object.prototype.'' @ k)
      else Data JUndefined)"

text \<open>
  The index that a property key denotes: the decimal numeral of a natural number,
  without sign and without leading zeros.
\<close>

definition digit_value :: "char \<Rightarrow> nat option" where
  "digit_value c =
     map_of [(CHR ''0'', 0), (CHR ''1'', 1), (CHR ''2'', 2), (CHR ''3'', 3), (CHR ''4'', 4),
             (CHR ''5'', 5), (CHR ''6'', 6), (CHR ''7'', 7), (CHR ''8'', 8), (CHR ''9'', 9)] c"

fun digits_value :: "nat \<Rightarrow> string \<Rightarrow> nat option" where
  "digits_value acc [] = Some acc"
| "digits_value acc (c # cs) =
     (case digit_value c of
        None \<Rightarrow> None
      | Some d \<Rightarrow> digits_value (10 * acc + d) cs)"

definition array_index :: "string \<Rightarrow> nat option" where
  "array_index k =
     (case k of
        [] \<Rightarrow> None
      | c # cs \<Rightarrow> if c = CHR ''0'' \<and> cs \<noteq> [] then None else digits_value 0 k)"

text \<open>
  \<^verbatim>\<open>v[k]\<close> for a value \<open>v\<close> that is neither undefined nor null and any key \<open>k\<close>: an own
  property (a property of an object, the length or an element of an array, the length
  or a code unit of a string), and otherwise the inherited member of that name, if any.
\<close>

fun get_member :: "jsval \<Rightarrow> string \<Rightarrow> jsres" where
  "get_member (JObj kvs) k =
     (case map_of kvs k of
        Some v \<Rightarrow> Data v
      | None \<Rightarrow> inherited_member ''Object'' [] k)"
| "get_member (JArr xs) k =
     (if k = ''length'' then Data (JNum (int (length xs)))
      else case array_index k of
             Some i \<Rightarrow>
               if i < length xs then Data (xs ! i)
               else inherited_member ''Array'' array_prototype_members k
           | None \<Rightarrow> inherited_member ''Array'' array_prototype_members k)"
| "get_member (JStr s) k =
     (if k = ''length'' then Data (JNum (int (length s)))
      else case array_index k of
             Some i \<Rightarrow>
               if i < length s then Data (JStr [s ! i])
               else inherited_member ''String'' string_prototype_members k
           | None \<Rightarrow> inherited_member ''String'' string_prototype_members k)"
| "get_member (JNum n) k = inherited_member ''Number'' number_prototype_members k"
| "get_member (JBool b) k = inherited_member ''Boolean'' boolean_prototype_members k"
| "get_member JUndefined k = Data JUndefined"
| "get_member JNull k = Data JUndefined"

text \<open>\<^verbatim>\<open>v[k]\<close> for any value: a TypeError on undefined and null.\<close>

definition read_member :: "jsval \<Rightarrow> string \<Rightarrow> error + jsres" where
  "read_member v k = (if nullish v then Inl TypeError else Inr (get_member v k))"

subsection \<open>The reads with a fixed key\<close>

text \<open>
  The code reads \<^verbatim>\<open>.id\<close> and \<^verbatim>\<open>.value\<close> from the result of a read. Neither name is
  \<^verbatim>\<open>length\<close>, an index or a member of a standard prototype, and no built-in function has
  a property of either name; so on data the read gives the own property of an object and
  undefined on every other value (\<open>get_member_own\<close> below), and on a native it gives
  undefined.
\<close>

fun own_prop :: "jsval \<Rightarrow> string \<Rightarrow> jsval" where
  "own_prop (JObj kvs) k = (case map_of kvs k of None \<Rightarrow> JUndefined | Some v \<Rightarrow> v)"
| "own_prop v k = JUndefined"

definition get_prop :: "jsval \<Rightarrow> string \<Rightarrow> error + jsval" where
  "get_prop v k = (if nullish v then Inl TypeError else Inr (own_prop v k))"

definition bind_result :: "error + 'a \<Rightarrow> ('a \<Rightarrow> error + 'b) \<Rightarrow> error + 'b" where
  "bind_result m f = (case m of Inl e \<Rightarrow> Inl e | Inr v \<Rightarrow> f v)"

definition read_fixed :: "jsres \<Rightarrow> string \<Rightarrow> error + jsres" where
  "read_fixed r k =
     (case r of
        Data v \<Rightarrow> bind_result (get_prop v k) (\<lambda>w. Inr (Data w))
      | Native n \<Rightarrow> Inr (Data JUndefined))"

text \<open>\<^verbatim>\<open>xs.map(f)\<close> where \<^verbatim>\<open>f\<close> may throw: the first exception ends the traversal.\<close>

fun map_result :: "('a \<Rightarrow> error + 'b) \<Rightarrow> 'a list \<Rightarrow> error + 'b list" where
  "map_result f [] = Inr []"
| "map_result f (x # xs) =
     (case f x of
        Inl e \<Rightarrow> Inl e
      | Inr y \<Rightarrow> (case map_result f xs of Inl e \<Rightarrow> Inl e | Inr ys \<Rightarrow> Inr (y # ys)))"

text \<open>
  \<^verbatim>\<open>value.map((item: any) => item.id)\<close>. Among the data only an array has \<^verbatim>\<open>map\<close>, and
  \<^verbatim>\<open>item.id\<close> is a TypeError on an undefined or null item. Among the natives only
  \<^verbatim>\<open>Array.prototype\<close>, itself an empty array, has \<^verbatim>\<open>map\<close>. On every other value the call
  is a TypeError.
\<close>

definition map_item_id :: "jsres \<Rightarrow> error + jsres" where
  "map_item_id r =
     (case r of
        Data (JArr items) \<Rightarrow>
          (case map_result (\<lambda>item. get_prop item ''id'') items of
             Inl e \<Rightarrow> Inl e
           | Inr ids \<Rightarrow> Inr (Data (JArr ids)))
      | Data v \<Rightarrow> Inl TypeError
      | Native n \<Rightarrow> if n = ''Array.prototype'' then Inr (Data (JArr [])) else Inl TypeError)"

subsection \<open>Plain objects used as dictionaries\<close>

text \<open>
  \<^verbatim>\<open>dropdownOptions\<close> and \<^verbatim>\<open>schemaKindNameMap\<close> are plain objects: a partial map gives
  their own properties, and a key without an own property reads the member of
  \<^verbatim>\<open>Object.prototype\<close> of that name, if there is one.

  A value used as a property key is converted to a string: undefined to
  \<^verbatim>\<open>"undefined"\<close>, \<^verbatim>\<open>Object.prototype\<close> to \<^verbatim>\<open>"[object Object]"\<close>, and a built-in function
  to its source text, which the engine chooses; the text below is the one V8 prints.
\<close>

definition native_key :: "string \<Rightarrow> string" where
  "native_key k =
     (if k = ''__proto__'' then ''[object Object]''
      else if k = ''constructor'' then ''function Object() { [native code] }''
      else ''function '' @ k @ ''() { [native code] }'')"

text \<open>The key \<^verbatim>\<open>schemaKindNameMap[relationship.peer]\<close> denotes.\<close>

definition peer_key :: "(string \<rightharpoonup> string) \<Rightarrow> string \<Rightarrow> string" where
  "peer_key schemaKindNameMap peer =
     (case schemaKindNameMap peer of
        Some name \<Rightarrow> name
      | None \<Rightarrow>
          if peer \<in> set object_prototype_members then native_key peer else ''undefined'')"

section \<open>Schemas and field descriptors\<close>

text \<open>
  The schema types come from the generated API declarations; the fields below are the
  ones the deriver reads. A field the declarations mark optional is an \<open>option\<close>.
\<close>

record attribute_schema =
  attr_name :: string
  attr_kind :: string
  attr_label :: "string option"
  attr_enum :: "jsval list option"
  attr_optional :: "bool option"

record relationship_schema =
  rel_name :: string
  rel_kind :: string
  rel_peer :: string
  rel_cardinality :: string
  rel_inherited :: "bool option"
  rel_label :: "string option"

record node_schema =
  schema_name :: string
  schema_kind :: string
  attributes :: "attribute_schema list option"
  relationships :: "relationship_schema list option"
  inherit_from :: "string list option"

record generic_schema =
  generic_kind :: string
  used_by :: "string list option"

record select_option =
  opt_name :: jsval
  opt_id :: jsval

text \<open>
  Modelled from the spec: the rows of \<^verbatim>\<open>iPeerDropdownOptions\<close> (declared in
  \<^verbatim>\<open>dropdownOptionsForRelatedPeers\<close>, which is not among the sources): a dropdown option
  set maps a peer-type identifier to a list of selectable (id, display label) pairs.
\<close>

record peer_dropdown_option =
  peer_id :: string
  display_label :: string

record field_config =
  required :: "string option"

record dynamic_field_data =
  field_name :: string
  field_kind :: string
  field_type :: string
  field_label :: string
  field_value :: jsres
  field_options :: "select_option list"
  field_config :: "field_config option"
  isAttribute :: "bool option"
  isRelationship :: "bool option"

text \<open>\<^verbatim>\<open>xs?.forEach\<close> and \<^verbatim>\<open>xs || []\<close>: an absent list is not traversed.\<close>

fun or_empty :: "'a list option \<Rightarrow> 'a list" where
  "or_empty None = []"
| "or_empty (Some xs) = xs"

text \<open>\<^verbatim>\<open>x.label ? x.label : x.name\<close>: the empty string is falsy.\<close>

fun label_or_name :: "string option \<Rightarrow> string \<Rightarrow> string" where
  "label_or_name None name = name"
| "label_or_name (Some l) name = (if l \<noteq> [] then l else name)"

text \<open>The truthiness of an optional boolean flag.\<close>

fun flag_set :: "bool option \<Rightarrow> bool" where
  "flag_set None = False"
| "flag_set (Some b) = b"

text \<open>
  \<^verbatim>\<open>xs.forEach(x => { ...; formFields.push(d) })\<close>: the list under construction is
  threaded through the traversal, each descriptor is appended at its end, and an
  exception in the body ends the traversal.
\<close>

fun forEach_push :: "('a \<Rightarrow> error + 'd) \<Rightarrow> 'a list \<Rightarrow> 'd list \<Rightarrow> error + 'd list" where
  "forEach_push body [] formFields = Inr formFields"
| "forEach_push body (x # xs) formFields =
     (case body x of
        Inl e \<Rightarrow> Inl e
      | Inr d \<Rightarrow> forEach_push body xs (formFields @ [d]))"

section \<open>getFormStructureForCreateEdit\<close>

text \<open>\<^verbatim>\<open>row && row[attribute.name] ? row[attribute.name].value : ""\<close>\<close>

definition attribute_value :: "jsval \<Rightarrow> attribute_schema \<Rightarrow> error + jsres" where
  "attribute_value row attribute =
     (if \<not> truthy row then Inr (Data (JStr []))
      else bind_result (read_member row (attr_name attribute)) (\<lambda>present.
        if truthy_res present
        then bind_result (read_member row (attr_name attribute)) (\<lambda>v. read_fixed v ''value'')
        else Inr (Data (JStr []))))"

text \<open>
  The body of the traversal of \<^verbatim>\<open>schema.attributes\<close>. The kind table
  \<^verbatim>\<open>getFormInputControlTypeFromSchemaAttributeKind\<close> is imported from
  \<^verbatim>\<open>dynamic-control-types\<close>, which is not among the sources: it is a parameter.
\<close>

definition attribute_field ::
  "(string \<Rightarrow> string) \<Rightarrow> jsval \<Rightarrow> attribute_schema \<Rightarrow> error + dynamic_field_data" where
  "attribute_field getFormInputControlTypeFromSchemaAttributeKind row attribute =
     (let options =
        (case attr_enum attribute of
           None \<Rightarrow> []
         | Some vs \<Rightarrow> map (\<lambda>r. \<lparr>opt_name = r, opt_id = r\<rparr>) vs)
      in bind_result (attribute_value row attribute) (\<lambda>v.
        Inr \<lparr>field_name = attr_name attribute @ ''.value'',
             field_kind = attr_kind attribute,
             field_type =
               (if attr_enum attribute \<noteq> None then ''select''
                else getFormInputControlTypeFromSchemaAttributeKind (attr_kind attribute)),
             field_label = label_or_name (attr_label attribute) (attr_name attribute),
             field_value = v,
             field_options = options,
             field_config =
               Some \<lparr>required =
                 Some (if attr_optional attribute = Some False then ''Required'' else [])\<rparr>,
             isAttribute = None,
             isRelationship = None\<rparr>))"

text \<open>
  The options of a relationship: the dropdown list of its peer when it is not inherited
  and \<^verbatim>\<open>dropdownOptions[schemaKindNameMap[relationship.peer]]\<close> is truthy, and otherwise
  the schemas that use the generic peer. An own property of \<^verbatim>\<open>dropdownOptions\<close> is a
  list, which is truthy and has \<^verbatim>\<open>map\<close>; an inherited member is truthy as well and has
  no \<^verbatim>\<open>map\<close>, so that the call at line 59 is a TypeError.
\<close>

definition relationship_options ::
  "node_schema list \<Rightarrow> generic_schema list \<Rightarrow> (string \<rightharpoonup> peer_dropdown_option list) \<Rightarrow>
   (string \<rightharpoonup> string) \<Rightarrow> relationship_schema \<Rightarrow> error + select_option list" where
  "relationship_options schemas generics dropdownOptions schemaKindNameMap relationship =
     (let isInherited = flag_set (rel_inherited relationship);
          key = peer_key schemaKindNameMap (rel_peer relationship)
      in if \<not> isInherited \<and>
            (dropdownOptions key \<noteq> None \<or> key \<in> set object_prototype_members)
         then (case dropdownOptions key of
                 Some rows \<Rightarrow>
                   Inr (map (\<lambda>r. \<lparr>opt_name = JStr (display_label r),
                                    opt_id = JStr (peer_id r)\<rparr>) rows)
               | None \<Rightarrow> Inl TypeError)
         else (case find (\<lambda>g. generic_kind g = rel_peer relationship) generics of
                 None \<Rightarrow> Inr []
               | Some generic \<Rightarrow>
                   Inr (fold (\<lambda>name options.
                          case find (\<lambda>s. schema_kind s = name) schemas of
                            None \<Rightarrow> options
                          | Some relatedSchema \<Rightarrow>
                              options @ [\<lparr>opt_name = JStr name,
                                          opt_id = JStr (schema_name relatedSchema)\<rparr>])
                       (or_empty (used_by generic)) [])))"

text \<open>The immediately invoked function that computes a relationship's initial value.\<close>

definition relationship_value :: "jsval \<Rightarrow> relationship_schema \<Rightarrow> error + jsres" where
  "relationship_value row relationship =
     (let isInherited = flag_set (rel_inherited relationship) in
      if \<not> truthy row then Inr (Data (JStr []))
      else bind_result (read_member row (rel_name relationship)) (\<lambda>present.
        if \<not> truthy_res present then Inr (Data (JStr []))
        else bind_result (read_member row (rel_name relationship)) (\<lambda>v.
          if rel_cardinality relationship = ''one'' \<and> \<not> isInherited then read_fixed v ''id''
          else if rel_cardinality relationship = ''one'' \<and> isInherited then Inr v
          else map_item_id v)))"

text \<open>The body of the traversal of the relationships of kind \<^verbatim>\<open>"Attribute"\<close>.\<close>

definition relationship_field ::
  "node_schema list \<Rightarrow> generic_schema list \<Rightarrow> (string \<rightharpoonup> peer_dropdown_option list) \<Rightarrow>
   (string \<rightharpoonup> string) \<Rightarrow> jsval \<Rightarrow> relationship_schema \<Rightarrow> error + dynamic_field_data" where
  "relationship_field schemas generics dropdownOptions schemaKindNameMap row relationship =
     (let isInherited = flag_set (rel_inherited relationship)
      in bind_result
           (relationship_options schemas generics dropdownOptions schemaKindNameMap relationship)
           (\<lambda>options.
        bind_result (relationship_value row relationship) (\<lambda>v.
        Inr \<lparr>field_name =
               rel_name relationship @
                 (if rel_cardinality relationship = ''one'' then ''.id'' else ''.list''),
             field_kind = ''String'',
             field_type =
               (if rel_cardinality relationship = ''many'' then ''multiselect''
                else if isInherited then ''select2step'' else ''select''),
             field_label = label_or_name (rel_label relationship) (rel_name relationship),
             field_value = v,
             field_options = options,
             field_config = None,
             isAttribute = None,
             isRelationship = None\<rparr>)))"

text \<open>
  The deriver. An absent schema is \<open>None\<close>. The parameter \<open>genericSchemaMap\<close> is
  received and never read.
\<close>

definition getFormStructureForCreateEdit ::
  "(string \<Rightarrow> string) \<Rightarrow> node_schema option \<Rightarrow> node_schema list \<Rightarrow> generic_schema list \<Rightarrow>
   (string \<rightharpoonup> peer_dropdown_option list) \<Rightarrow> (string \<rightharpoonup> string) \<Rightarrow> 'g \<Rightarrow> jsval \<Rightarrow>
   error + dynamic_field_data list" where
  "getFormStructureForCreateEdit getFormInputControlTypeFromSchemaAttributeKind
     schema schemas generics dropdownOptions schemaKindNameMap genericSchemaMap row =
     (case schema of
        None \<Rightarrow> Inr []
      | Some s \<Rightarrow>
          bind_result
            (forEach_push
               (attribute_field getFormInputControlTypeFromSchemaAttributeKind row)
               (or_empty (attributes s)) [])
            (\<lambda>formFields.
               forEach_push
                 (relationship_field schemas generics dropdownOptions schemaKindNameMap row)
                 (filter (\<lambda>relationship. rel_kind relationship = ''Attribute'')
                    (or_empty (relationships s)))
                 formFields))"

section \<open>getFormStructureForMetaEdit\<close>

datatype meta_type = TAttribute | TRelationship

text \<open>\<^verbatim>\<open>f.split("_")\<close>, \<^verbatim>\<open>.filter(r => !!r)\<close> and \<^verbatim>\<open>.join(" ")\<close>.\<close>

fun split_on :: "char \<Rightarrow> string \<Rightarrow> string list" where
  "split_on c [] = [] # []"
| "split_on c (x # xs) =
     (if x = c then [] # split_on c xs
      else (case split_on c xs of
              [] \<Rightarrow> [x] # []
            | w # ws \<Rightarrow> (x # w) # ws))"

fun join_with :: "string \<Rightarrow> string list \<Rightarrow> string" where
  "join_with sep [] = []"
| "join_with sep [w] = w"
| "join_with sep (w # v # ws) = w @ sep @ join_with sep (v # ws)"

definition meta_label :: "string \<Rightarrow> string" where
  "meta_label f = join_with '' '' (filter (\<lambda>r. r \<noteq> []) (split_on CHR ''_'' f))"

definition relatedObjects :: "string \<rightharpoonup> string" where
  "relatedObjects =
     map_of [(''source'', ''DataSource''),
             (''owner'', ''DataOwner''),
             (''_relation__source'', ''DataSource''),
             (''_relation__owner'', ''DataOwner'')]"

text \<open>
  \<^verbatim>\<open>(schema.inherit_from || []).indexOf(relatedObjects[f]) > -1\<close>: a key outside
  \<open>relatedObjects\<close> gives undefined or an inherited member, and no list of strings holds
  either.
\<close>

definition inherits_related :: "string \<Rightarrow> node_schema \<Rightarrow> bool" where
  "inherits_related f schema =
     (case relatedObjects f of
        None \<Rightarrow> False
      | Some k \<Rightarrow> k \<in> set (or_empty (inherit_from schema)))"

definition sourceOwnerFields :: "meta_type \<Rightarrow> string list" where
  "sourceOwnerFields type =
     (if type = TAttribute then [''owner'', ''source'']
      else [''_relation__owner'', ''_relation__source''])"

definition booleanFields :: "meta_type \<Rightarrow> string list" where
  "booleanFields type =
     (if type = TAttribute then [''is_visible'', ''is_protected'']
      else [''_relation__is_visible'', ''_relation__is_protected''])"

text \<open>
  The name \<^verbatim>\<open>attributeOrRelationshipName: any\<close> is used as a property key and in a
  string concatenation, both of which read it as a string.

  \<^verbatim>\<open>row?.[attributeOrRelationshipName]?.[f]\<close>: undefined as soon as the receiver is
  undefined or null. The second receiver may be a native; \<open>f\<close> is one of the eight field
  names of \<open>sourceOwnerFields\<close> and \<open>booleanFields\<close>, which no native has as a
  property.
\<close>

definition meta_value :: "jsval \<Rightarrow> string \<Rightarrow> string \<Rightarrow> jsres" where
  "meta_value row attributeOrRelationshipName f =
     (if nullish row then Data JUndefined
      else case get_member row attributeOrRelationshipName of
             Data v \<Rightarrow> if nullish v then Data JUndefined else get_member v f
           | Native n \<Rightarrow> Data JUndefined)"

definition sourceOwnerFormField ::
  "jsval \<Rightarrow> string \<Rightarrow> node_schema list \<Rightarrow> string \<Rightarrow> dynamic_field_data" where
  "sourceOwnerFormField row attributeOrRelationshipName schemaList f =
     (let metaFieldName = attributeOrRelationshipName @ ''.'' @ f;
          schemaOptions =
            map (\<lambda>schema. \<lparr>opt_name = JStr (schema_kind schema),
                           opt_id = JStr (schema_name schema)\<rparr>)
              (filter (inherits_related f) schemaList)
      in \<lparr>field_name = metaFieldName,
          field_kind = ''Text'',
          field_type = ''select2step'',
          field_label = meta_label f,
          field_value = meta_value row attributeOrRelationshipName f,
          field_options = schemaOptions,
          field_config = Some \<lparr>required = None\<rparr>,
          isAttribute = Some False,
          isRelationship = Some False\<rparr>)"

definition booleanFormField :: "jsval \<Rightarrow> string \<Rightarrow> string \<Rightarrow> dynamic_field_data" where
  "booleanFormField row attributeOrRelationshipName f =
     (let metaFieldName = attributeOrRelationshipName @ ''.'' @ f
      in \<lparr>field_name = metaFieldName,
          field_kind = ''Checkbox'',
          field_type = ''checkbox'',
          field_label = meta_label f,
          field_value = meta_value row attributeOrRelationshipName f,
          field_options = [],
          field_config = Some \<lparr>required = None\<rparr>,
          isAttribute = Some False,
          isRelationship = Some False\<rparr>)"

definition getFormStructureForMetaEdit ::
  "jsval \<Rightarrow> meta_type \<Rightarrow> string \<Rightarrow> node_schema list \<Rightarrow> dynamic_field_data list" where
  "getFormStructureForMetaEdit row type attributeOrRelationshipName schemaList =
     (let sourceOwnerFormFields =
            map (sourceOwnerFormField row attributeOrRelationshipName schemaList)
              (sourceOwnerFields type);
          booleanFormFields =
            map (booleanFormField row attributeOrRelationshipName) (booleanFields type)
      in sourceOwnerFormFields @ booleanFormFields)"

section \<open>useObjectDetails\<close>






section \<open>Auxiliary facts\<close>

subsection \<open>Property reads\<close>

lemma truthy_not_nullish: "truthy v \<Longrightarrow> \<not> nullish v"
  by (cases v) simp_all

lemma get_prop_truthy: "truthy v \<Longrightarrow> get_prop v k = Inr (own_prop v k)"
  by (simp add: get_prop_def truthy_not_nullish)

lemma get_prop_Inr: "get_prop v k = Inr w \<Longrightarrow> w = own_prop v k"
  by (auto simp: get_prop_def split: if_splits)

lemma read_member_truthy: "truthy v \<Longrightarrow> read_member v k = Inr (get_member v k)"
  by (simp add: read_member_def truthy_not_nullish)

lemma read_fixed_truthy: "truthy_res r \<Longrightarrow> \<exists>w. read_fixed r k = Inr w"
  by (cases r) (simp_all add: read_fixed_def bind_result_def get_prop_truthy)

text \<open>
  The reads with the fixed keys agree with the general read: \<^verbatim>\<open>id\<close> and \<^verbatim>\<open>value\<close>
  are not inherited by any value.
\<close>

lemma array_index_id: "array_index ''id'' = None"
  by (simp add: array_index_def digit_value_def)

lemma array_index_value: "array_index ''value'' = None"
  by (simp add: array_index_def digit_value_def)

lemma inherited_member_id: "inherited_member proto members ''id'' =
    (if ''id'' \<in> set members then Native (proto @ ''.prototype.id'') else Data JUndefined)"
  by (simp add: inherited_member_def object_prototype_members_def)

lemma inherited_member_value: "inherited_member proto members ''value'' =
    (if ''value'' \<in> set members then Native (proto @ ''.prototype.value'') else Data JUndefined)"
  by (simp add: inherited_member_def object_prototype_members_def)

lemma get_member_own:
  "k = ''id'' \<or> k = ''value'' \<Longrightarrow> get_member v k = Data (own_prop v k)"
  by (cases v)
    (auto simp: array_index_id array_index_value inherited_member_id inherited_member_value
      array_prototype_members_def string_prototype_members_def number_prototype_members_def
      boolean_prototype_members_def split: option.splits)

subsection \<open>Traversals that may throw\<close>

text \<open>
  A traversal that returns has appended, to the list it started from, one result of the
  body for each element, in order.
\<close>

lemma forEach_push_Inr:
  "forEach_push body xs acc = Inr fs \<Longrightarrow> \<exists>ds. fs = acc @ ds \<and> map body xs = map Inr ds"
proof (induction xs arbitrary: acc)
  case Nil
  then show ?case by simp
next
  case (Cons x xs)
  from Cons.prems obtain d where d: "body x = Inr d"
    and rest: "forEach_push body xs (acc @ [d]) = Inr fs"
    by (auto split: sum.splits)
  from Cons.IH [OF rest] obtain ds where "fs = (acc @ [d]) @ ds" "map body xs = map Inr ds"
    by blast
  with d have "fs = acc @ (d # ds) \<and> map body (x # xs) = map Inr (d # ds)" by simp
  then show ?case by blast
qed

lemma forEach_push_map:
  "map body xs = map Inr ds \<Longrightarrow> forEach_push body xs acc = Inr (acc @ ds)"
proof (induction xs arbitrary: acc ds)
  case Nil
  then show ?case by simp
next
  case (Cons x xs)
  then obtain d ds' where ds: "ds = d # ds'" "body x = Inr d" "map body xs = map Inr ds'"
    by (cases ds) auto
  from Cons.IH [OF ds(3), of "acc @ [d]"] ds show ?case by simp
qed

lemma map_Inr_nth:
  "map body xs = map Inr ds \<Longrightarrow> i < length xs \<Longrightarrow> body (xs ! i) = Inr (ds ! i)"
  by (metis length_map nth_map)

lemma map_Inr_length: "map body xs = map Inr ds \<Longrightarrow> length ds = length xs"
  by (metis length_map)

lemma map_total_Inr: "(\<And>x. \<exists>d. body x = Inr d) \<Longrightarrow> \<exists>ds. map body xs = map Inr ds"
proof (induction xs)
  case Nil
  then show ?case by simp
next
  case (Cons x xs)
  then obtain ds where "map body xs = map Inr ds" by blast
  moreover from Cons.prems obtain d where "body x = Inr d" by blast
  ultimately have "map body (x # xs) = map Inr (d # ds)" by simp
  then show ?case by blast
qed

lemma map_result_Inr: "map_result f xs = Inr ys \<Longrightarrow> map f xs = map Inr ys"
proof (induction xs arbitrary: ys)
  case Nil
  then show ?case by simp
next
  case (Cons x xs)
  then show ?case by (auto split: sum.splits)
qed

lemma map_get_prop_Inr:
  "map (\<lambda>item. get_prop item k) items = map Inr ids \<Longrightarrow> ids = map (\<lambda>item. own_prop item k) items"
proof (induction items arbitrary: ids)
  case Nil
  then show ?case by simp
next
  case (Cons item items)
  then show ?case by (cases ids) (auto dest: get_prop_Inr)
qed

lemma map_item_id_Inr:
  "map_item_id (Data v) = Inr w \<Longrightarrow>
   \<exists>items. v = JArr items \<and> w = Data (JArr (map (\<lambda>item. own_prop item ''id'') items))"
  by (cases v) (auto simp: map_item_id_def split: sum.splits dest!: map_result_Inr map_get_prop_Inr)

lemma map_result_get_prop:
  "list_all (\<lambda>item. \<not> nullish item) items \<Longrightarrow>
   map_result (\<lambda>item. get_prop item k) items = Inr (map (\<lambda>item. own_prop item k) items)"
  by (induction items) (simp_all add: get_prop_def)

subsection \<open>The bodies of the two traversals\<close>

text \<open>The attribute body never throws: both reads are guarded by a truthiness test.\<close>

lemma attribute_value_Inr: "\<exists>v. attribute_value row a = Inr v"
proof (cases "truthy row \<and> truthy_res (get_member row (attr_name a))")
  case True
  with read_fixed_truthy [of "get_member row (attr_name a)" "''value''"] show ?thesis
    by (auto simp: attribute_value_def bind_result_def read_member_truthy)
next
  case False
  then show ?thesis
    by (auto simp: attribute_value_def bind_result_def read_member_truthy)
qed

lemma attribute_field_Inr: "\<exists>d. attribute_field tbl row a = Inr d"
proof -
  from attribute_value_Inr obtain v where "attribute_value row a = Inr v" by blast
  then show ?thesis by (simp add: attribute_field_def bind_result_def Let_def)
qed

lemma attribute_field_name:
  "attribute_field tbl row a = Inr d \<Longrightarrow>
   field_name d = attr_name a @ ''.value'' \<and> field_kind d = attr_kind a"
  by (auto simp: attribute_field_def bind_result_def Let_def split: sum.splits)

lemma attribute_field_type:
  "attribute_field tbl row a = Inr d \<Longrightarrow>
   field_type d = (if attr_enum a \<noteq> None then ''select'' else tbl (attr_kind a))"
  by (auto simp: attribute_field_def bind_result_def Let_def split: sum.splits)

lemma attribute_field_label:
  "attribute_field tbl row a = Inr d \<Longrightarrow>
   field_label d = label_or_name (attr_label a) (attr_name a)"
  by (auto simp: attribute_field_def bind_result_def Let_def split: sum.splits)

lemma relationship_field_name:
  "relationship_field schemas generics dd sknm row r = Inr d \<Longrightarrow>
   field_name d = rel_name r @ (if rel_cardinality r = ''one'' then ''.id'' else ''.list'')
   \<and> field_kind d = ''String''"
  by (auto simp: relationship_field_def bind_result_def Let_def split: sum.splits)

lemma relationship_field_type:
  "relationship_field schemas generics dd sknm row r = Inr d \<Longrightarrow>
   field_type d =
     (if rel_cardinality r = ''many'' then ''multiselect''
      else if flag_set (rel_inherited r) then ''select2step'' else ''select'')"
  by (auto simp: relationship_field_def bind_result_def Let_def split: sum.splits)

lemma relationship_field_label:
  "relationship_field schemas generics dd sknm row r = Inr d \<Longrightarrow>
   field_label d = label_or_name (rel_label r) (rel_name r)"
  by (auto simp: relationship_field_def bind_result_def Let_def split: sum.splits)

lemma relationship_field_value:
  "relationship_field schemas generics dd sknm row r = Inr d \<Longrightarrow>
   relationship_value row r = Inr (field_value d)"
  by (auto simp: relationship_field_def bind_result_def Let_def split: sum.splits)

lemma relationship_value_no_row:
  "\<not> truthy row \<Longrightarrow> relationship_value row r = Inr (Data (JStr []))"
  by (simp add: relationship_value_def)

text \<open>
  The options of a relationship are computed without an exception unless the relationship
  is not inherited and the key of its peer names a member of \<^verbatim>\<open>Object.prototype\<close> that
  \<^verbatim>\<open>dropdownOptions\<close> does not redefine.
\<close>

lemma relationship_options_returns:
  assumes "flag_set (rel_inherited r) \<or> dd (peer_key sknm (rel_peer r)) \<noteq> None
             \<or> peer_key sknm (rel_peer r) \<notin> set object_prototype_members"
  shows "\<exists>opts. relationship_options schemas generics dd sknm r = Inr opts"
  using assms
  by (auto simp: relationship_options_def Let_def split: option.splits)

lemma relationship_options_throws:
  assumes "\<not> flag_set (rel_inherited r)" and "dd (peer_key sknm (rel_peer r)) = None"
    and "peer_key sknm (rel_peer r) \<in> set object_prototype_members"
  shows "relationship_options schemas generics dd sknm r = Inl TypeError"
  using assms by (simp add: relationship_options_def Let_def)

lemma relationship_field_no_row:
  assumes "\<not> truthy row"
    and "flag_set (rel_inherited r) \<or> dd (peer_key sknm (rel_peer r)) \<noteq> None
             \<or> peer_key sknm (rel_peer r) \<notin> set object_prototype_members"
  shows "\<exists>d. relationship_field schemas generics dd sknm row r = Inr d"
proof -
  from relationship_options_returns [where dd = dd and sknm = sknm and r = r, OF assms(2)]
  obtain opts where
    "relationship_options schemas generics dd sknm r = Inr opts" by blast
  with assms(1) show ?thesis
    by (simp add: relationship_field_def relationship_value_no_row bind_result_def Let_def)
qed

lemma relationship_value_row:
  assumes "map_of kvs (rel_name r) = Some v" and "truthy v"
  shows "relationship_value (JObj kvs) r =
     (if rel_cardinality r = ''one'' \<and> \<not> flag_set (rel_inherited r)
      then Inr (Data (own_prop v ''id''))
      else if rel_cardinality r = ''one'' \<and> flag_set (rel_inherited r) then Inr (Data v)
      else map_item_id (Data v))"
  using assms
  by (simp add: relationship_value_def bind_result_def read_member_def read_fixed_def
      get_prop_def truthy_not_nullish)

text \<open>
  When the relationship's computed value throws and when it does not: a relationship of
  cardinality one never throws; any other one returns on an array of items that are
  neither undefined nor null.
\<close>

lemma relationship_value_many_returns:
  assumes "map_of kvs (rel_name r) = Some (JArr items)"
    and "list_all (\<lambda>item. \<not> nullish item) items"
    and "rel_cardinality r = ''many''"
  shows "relationship_value (JObj kvs) r =
    Inr (Data (JArr (map (\<lambda>item. own_prop item ''id'') items)))"
  using assms
  by (simp add: relationship_value_row [where v = "JArr items"] map_item_id_def map_result_get_prop)

lemma relationship_value_one_returns:
  assumes "rel_cardinality r = ''one''"
  shows "\<exists>v. relationship_value row r = Inr v"
proof (cases "truthy row \<and> truthy_res (get_member row (rel_name r))")
  case True
  with assms read_fixed_truthy [of "get_member row (rel_name r)" "''id''"] show ?thesis
    by (auto simp: relationship_value_def bind_result_def read_member_truthy Let_def)
next
  case False
  then show ?thesis
    by (auto simp: relationship_value_def bind_result_def read_member_truthy Let_def)
qed

subsection \<open>The shape of the deriver's result\<close>

lemma getFormStructureForCreateEdit_Inr:
  assumes "getFormStructureForCreateEdit tbl (Some s) schemas generics dd sknm gsm row = Inr fs"
  shows "\<exists>as rs. fs = as @ rs
           \<and> map (attribute_field tbl row) (or_empty (attributes s)) = map Inr as
           \<and> map (relationship_field schemas generics dd sknm row)
               (filter (\<lambda>r. rel_kind r = ''Attribute'') (or_empty (relationships s))) = map Inr rs"
proof -
  from assms obtain as where
    as: "forEach_push (attribute_field tbl row) (or_empty (attributes s)) [] = Inr as"
    and rs: "forEach_push (relationship_field schemas generics dd sknm row)
               (filter (\<lambda>r. rel_kind r = ''Attribute'') (or_empty (relationships s))) as = Inr fs"
    by (auto simp: getFormStructureForCreateEdit_def bind_result_def split: sum.splits)
  from forEach_push_Inr [OF as] have m1: "map (attribute_field tbl row) (or_empty (attributes s)) = map Inr as"
    by simp
  from forEach_push_Inr [OF rs] obtain rs' where "fs = as @ rs'"
    "map (relationship_field schemas generics dd sknm row)
       (filter (\<lambda>r. rel_kind r = ''Attribute'') (or_empty (relationships s))) = map Inr rs'"
    by blast
  with m1 show ?thesis by blast
qed

lemma getFormStructureForCreateEdit_of_maps:
  assumes "map (attribute_field tbl row) (or_empty (attributes s)) = map Inr as"
    and "map (relationship_field schemas generics dd sknm row)
           (filter (\<lambda>r. rel_kind r = ''Attribute'') (or_empty (relationships s))) = map Inr rs"
  shows "getFormStructureForCreateEdit tbl (Some s) schemas generics dd sknm gsm row = Inr (as @ rs)"
  using forEach_push_map [OF assms(1), of "[]"] forEach_push_map [OF assms(2), of as]
  by (simp add: getFormStructureForCreateEdit_def bind_result_def)

lemma form_structure_attribute_at:
  assumes "getFormStructureForCreateEdit tbl (Some s) schemas generics dd sknm gsm row = Inr fs"
    and "i < length (or_empty (attributes s))"
  shows "attribute_field tbl row (or_empty (attributes s) ! i) = Inr (fs ! i)"
proof -
  from getFormStructureForCreateEdit_Inr [OF assms(1)] obtain as rs where
    fs: "fs = as @ rs"
    and as: "map (attribute_field tbl row) (or_empty (attributes s)) = map Inr as"
    by blast
  from map_Inr_nth [OF as assms(2)] assms(2) map_Inr_length [OF as] fs show ?thesis
    by (simp add: nth_append)
qed

lemma form_structure_relationship_at:
  assumes "getFormStructureForCreateEdit tbl (Some s) schemas generics dd sknm gsm row = Inr fs"
    and "j < length (filter (\<lambda>r. rel_kind r = ''Attribute'') (or_empty (relationships s)))"
  shows "relationship_field schemas generics dd sknm row
           (filter (\<lambda>r. rel_kind r = ''Attribute'') (or_empty (relationships s)) ! j)
         = Inr (fs ! (length (or_empty (attributes s)) + j))"
proof -
  from getFormStructureForCreateEdit_Inr [OF assms(1)] obtain as rs where
    fs: "fs = as @ rs"
    and as: "map (attribute_field tbl row) (or_empty (attributes s)) = map Inr as"
    and rs: "map (relationship_field schemas generics dd sknm row)
      (filter (\<lambda>r. rel_kind r = ''Attribute'') (or_empty (relationships s))) = map Inr rs"
    by blast
  from map_Inr_nth [OF rs assms(2)] map_Inr_length [OF as] fs show ?thesis
    by (simp add: nth_append)
qed

text \<open>
  Without a row the deriver returns whenever the options of its relationships can be
  computed.
\<close>

lemma relationship_fields_no_row:
  assumes "\<not> truthy row"
    and "\<And>r. r \<in> set rels \<Longrightarrow>
           flag_set (rel_inherited r) \<or> dd (peer_key sknm (rel_peer r)) \<noteq> None
             \<or> peer_key sknm (rel_peer r) \<notin> set object_prototype_members"
  shows "\<exists>rs. map (relationship_field schemas generics dd sknm row) rels = map Inr rs"
  using assms(2)
proof (induction rels)
  case Nil
  then show ?case by simp
next
  case (Cons r rels)
  then obtain rs where rs: "map (relationship_field schemas generics dd sknm row) rels = map Inr rs"
    by auto
  from Cons.prems [of r]
  have "flag_set (rel_inherited r) \<or> dd (peer_key sknm (rel_peer r)) \<noteq> None
             \<or> peer_key sknm (rel_peer r) \<notin> set object_prototype_members"
    by simp
  from relationship_field_no_row
    [where dd = dd and sknm = sknm and r = r and row = row, OF assms(1) this]
  obtain d where "relationship_field schemas generics dd sknm row r = Inr d" by blast
  with rs have "map (relationship_field schemas generics dd sknm row) (r # rels) = map Inr (d # rs)"
    by simp
  then show ?case by blast
qed

lemma getFormStructureForCreateEdit_returns:
  assumes "\<not> truthy row"
    and "\<And>r. r \<in> set (or_empty (relationships s)) \<Longrightarrow>
           flag_set (rel_inherited r) \<or> dd (peer_key sknm (rel_peer r)) \<noteq> None
             \<or> peer_key sknm (rel_peer r) \<notin> set object_prototype_members"
  shows "\<exists>fs. getFormStructureForCreateEdit tbl (Some s) schemas generics dd sknm gsm row = Inr fs"
proof -
  have "\<exists>rs. map (relationship_field schemas generics dd sknm row)
      (filter (\<lambda>r. rel_kind r = ''Attribute'') (or_empty (relationships s))) = map Inr rs"
    using assms(2)
    by (intro relationship_fields_no_row [where dd = dd and sknm = sknm, OF assms(1)]) simp
  then obtain rs where rs: "map (relationship_field schemas generics dd sknm row)
      (filter (\<lambda>r. rel_kind r = ''Attribute'') (or_empty (relationships s))) = map Inr rs"
    by blast
  obtain as where as: "map (attribute_field tbl row) (or_empty (attributes s)) = map Inr as"
    using map_total_Inr [of "attribute_field tbl row"] attribute_field_Inr by blast
  from getFormStructureForCreateEdit_of_maps [OF as rs, where gsm = gsm] show ?thesis by blast
qed

lemmas deriver_defs =
  getFormStructureForCreateEdit_def bind_result_def attribute_field_def
  attribute_value_def relationship_field_def relationship_value_def relationship_options_def
  get_prop_def read_member_def read_fixed_def map_item_id_def peer_key_def
  inherited_member_def object_prototype_members_def

section \<open>The claims\<close>

text \<open>
  Claim C1. For every schema, the list returned by \<open>getFormStructureForCreateEdit\<close> has
  one descriptor for each attribute of the schema, in the order of the attributes,
  followed by one descriptor for each relationship of kind \<^verbatim>\<open>"Attribute"\<close>, in the order
  of the relationships: its length is the number of attributes plus the number of those
  relationships (an absent list counts as empty), and its descriptors carry, position by
  position, the field names and kinds derived from the attributes and then from those
  relationships.
\<close>

theorem form_structure_count_and_order:
  assumes "getFormStructureForCreateEdit tbl (Some s) schemas generics dd sknm gsm row = Inr fs"
  shows "length fs =
          length (or_empty (attributes s)) +
          length (filter (\<lambda>r. rel_kind r = ''Attribute'') (or_empty (relationships s)))
    \<and> map field_name fs =
          map (\<lambda>a. attr_name a @ ''.value'') (or_empty (attributes s)) @
          map (\<lambda>r. rel_name r @ (if rel_cardinality r = ''one'' then ''.id'' else ''.list''))
            (filter (\<lambda>r. rel_kind r = ''Attribute'') (or_empty (relationships s)))
    \<and> map field_kind fs =
          map attr_kind (or_empty (attributes s)) @
          map (\<lambda>r. ''String'')
            (filter (\<lambda>r. rel_kind r = ''Attribute'') (or_empty (relationships s)))"
proof -
  from getFormStructureForCreateEdit_Inr [OF assms] obtain as rs where
    fs: "fs = as @ rs"
    and as: "map (attribute_field tbl row) (or_empty (attributes s)) = map Inr as"
    and rs: "map (relationship_field schemas generics dd sknm row)
      (filter (\<lambda>r. rel_kind r = ''Attribute'') (or_empty (relationships s))) = map Inr rs"
    by blast
  have an: "map field_name as = map (\<lambda>a. attr_name a @ ''.value'') xs
      \<and> map field_kind as = map attr_kind xs"
    if "map (attribute_field tbl row) xs = map Inr as" for xs as
    using that
  proof (induction xs arbitrary: as)
    case Nil
    then show ?case by simp
  next
    case (Cons x xs)
    then obtain d ds where "as = d # ds" "attribute_field tbl row x = Inr d"
      "map (attribute_field tbl row) xs = map Inr ds"
      by (cases as) auto
    with Cons.IH [of ds] attribute_field_name [of tbl row x d] show ?case by simp
  qed
  have rn: "map field_name rs =
        map (\<lambda>r. rel_name r @ (if rel_cardinality r = ''one'' then ''.id'' else ''.list'')) xs
      \<and> map field_kind rs = map (\<lambda>r. ''String'') xs"
    if "map (relationship_field schemas generics dd sknm row) xs = map Inr rs" for xs rs
    using that
  proof (induction xs arbitrary: rs)
    case Nil
    then show ?case by simp
  next
    case (Cons x xs)
    then obtain d ds where "rs = d # ds" "relationship_field schemas generics dd sknm row x = Inr d"
      "map (relationship_field schemas generics dd sknm row) xs = map Inr ds"
      by (cases rs) auto
    with Cons.IH [of ds] relationship_field_name [of schemas generics dd sknm row x d]
    show ?case by simp
  qed
  from fs map_Inr_length [OF as] map_Inr_length [OF rs] an [OF as] rn [OF rs]
  show ?thesis by simp
qed

theorem form_structure_count_and_order_witness:
  "getFormStructureForCreateEdit (\<lambda>kind. ''text'')
     (Some \<lparr>schema_name = ''Device'', schema_kind = ''InfraDevice'',
        attributes = Some [
          \<lparr>attr_name = ''name'', attr_kind = ''Text'', attr_label = Some ''Name'',
           attr_enum = None, attr_optional = Some False\<rparr>,
          \<lparr>attr_name = ''role'', attr_kind = ''Text'', attr_label = None,
           attr_enum = Some [JStr ''spine''], attr_optional = None\<rparr>],
        relationships = Some [
          \<lparr>rel_name = ''site'', rel_kind = ''Attribute'', rel_peer = ''InfraSite'',
           rel_cardinality = ''one'', rel_inherited = Some False, rel_label = Some ''Site''\<rparr>,
          \<lparr>rel_name = ''interfaces'', rel_kind = ''Component'', rel_peer = ''InfraInterface'',
           rel_cardinality = ''many'', rel_inherited = None, rel_label = None\<rparr>,
          \<lparr>rel_name = ''tags'', rel_kind = ''Attribute'', rel_peer = ''BuiltinTag'',
           rel_cardinality = ''many'', rel_inherited = None, rel_label = None\<rparr>],
        inherit_from = None\<rparr>)
     [] [] Map.empty Map.empty ()
     (JObj [(''name'', JObj [(''value'', JStr ''atl1'')]),
            (''tags'', JArr [JObj [(''id'', JStr ''t1'')]])])
   = Inr [\<lparr>field_name = ''name.value'', field_kind = ''Text'', field_type = ''text'',
           field_label = ''Name'', field_value = Data (JStr ''atl1''), field_options = [],
           field_config = Some \<lparr>required = Some ''Required''\<rparr>,
           isAttribute = None, isRelationship = None\<rparr>,
          \<lparr>field_name = ''role.value'', field_kind = ''Text'', field_type = ''select'',
           field_label = ''role'', field_value = Data (JStr ''''),
           field_options = [\<lparr>opt_name = JStr ''spine'', opt_id = JStr ''spine''\<rparr>],
           field_config = Some \<lparr>required = Some ''''\<rparr>,
           isAttribute = None, isRelationship = None\<rparr>,
          \<lparr>field_name = ''site.id'', field_kind = ''String'', field_type = ''select'',
           field_label = ''Site'', field_value = Data (JStr ''''), field_options = [],
           field_config = None, isAttribute = None, isRelationship = None\<rparr>,
          \<lparr>field_name = ''tags.list'', field_kind = ''String'', field_type = ''multiselect'',
           field_label = ''tags'', field_value = Data (JArr [JStr ''t1'']), field_options = [],
           field_config = None, isAttribute = None, isRelationship = None\<rparr>]
   \<and> length [''name.value'', ''role.value'', ''site.id'', ''tags.list''] = 2 + (2::nat)"
  (is "?run = Inr ?fs \<and> _")
proof -
  have run: "?run = Inr ?fs" by (simp add: deriver_defs)
  from form_structure_count_and_order [OF run]
  have "length ?fs = 2 + 2" by simp
  with run show ?thesis by simp
qed

text \<open>
  Claim C2, as amended. The claim says that kind, cardinality and inheritance flag alone
  fix the control type. For an attribute the presence of an enum list is read as well:
  with a kind table that sends \<^verbatim>\<open>"Text"\<close> to \<^verbatim>\<open>"text"\<close>, two attributes of kind
  \<^verbatim>\<open>"Text"\<close> get the control types \<^verbatim>\<open>"text"\<close> and \<^verbatim>\<open>"select"\<close> when only the second
  has an enum list.
\<close>

theorem control_type_not_fixed_by_kind:
  "getFormStructureForCreateEdit (\<lambda>kind. ''text'')
     (Some \<lparr>schema_name = ''Device'', schema_kind = ''InfraDevice'',
        attributes = Some [
          \<lparr>attr_name = ''role'', attr_kind = ''Text'', attr_label = None,
           attr_enum = None, attr_optional = None\<rparr>],
        relationships = None, inherit_from = None\<rparr>)
     [] [] Map.empty Map.empty () JUndefined
   = Inr [\<lparr>field_name = ''role.value'', field_kind = ''Text'', field_type = ''text'',
           field_label = ''role'', field_value = Data (JStr ''''), field_options = [],
           field_config = Some \<lparr>required = Some ''''\<rparr>,
           isAttribute = None, isRelationship = None\<rparr>]
   \<and> getFormStructureForCreateEdit (\<lambda>kind. ''text'')
     (Some \<lparr>schema_name = ''Device'', schema_kind = ''InfraDevice'',
        attributes = Some [
          \<lparr>attr_name = ''role'', attr_kind = ''Text'', attr_label = None,
           attr_enum = Some [JStr ''spine'', JStr ''leaf''], attr_optional = None\<rparr>],
        relationships = None, inherit_from = None\<rparr>)
     [] [] Map.empty Map.empty () JUndefined
   = Inr [\<lparr>field_name = ''role.value'', field_kind = ''Text'', field_type = ''select'',
           field_label = ''role'', field_value = Data (JStr ''''),
           field_options = [\<lparr>opt_name = JStr ''spine'', opt_id = JStr ''spine''\<rparr>,
                            \<lparr>opt_name = JStr ''leaf'', opt_id = JStr ''leaf''\<rparr>],
           field_config = Some \<lparr>required = Some ''''\<rparr>,
           isAttribute = None, isRelationship = None\<rparr>]
   \<and> ''text'' \<noteq> ''select''"
  by (simp add: deriver_defs)

text \<open>
  Claim C2, amended. For any two runs of the deriver with the same kind table (whatever
  the schemas, rows, dropdown options and other arguments): two attributes that agree
  on their kind and on whether an enum list is present get the same control type, and
  two relationships of kind \<^verbatim>\<open>"Attribute"\<close> that agree on their cardinality and on their
  inheritance flag get the same control type.
\<close>

theorem control_type_determined:
  assumes "getFormStructureForCreateEdit tbl (Some s1) schemas1 generics1 dd1 sknm1 gsm1 row1 = Inr fs1"
    and "getFormStructureForCreateEdit tbl (Some s2) schemas2 generics2 dd2 sknm2 gsm2 row2 = Inr fs2"
  shows "(\<forall>i < length (or_empty (attributes s1)). \<forall>j < length (or_empty (attributes s2)).
            attr_kind (or_empty (attributes s1) ! i) = attr_kind (or_empty (attributes s2) ! j)
            \<and> (attr_enum (or_empty (attributes s1) ! i) = None
                 \<longleftrightarrow> attr_enum (or_empty (attributes s2) ! j) = None)
            \<longrightarrow> field_type (fs1 ! i) = field_type (fs2 ! j))
    \<and> (\<forall>i < length (filter (\<lambda>r. rel_kind r = ''Attribute'') (or_empty (relationships s1))).
        \<forall>j < length (filter (\<lambda>r. rel_kind r = ''Attribute'') (or_empty (relationships s2))).
            rel_cardinality (filter (\<lambda>r. rel_kind r = ''Attribute'') (or_empty (relationships s1)) ! i)
              = rel_cardinality (filter (\<lambda>r. rel_kind r = ''Attribute'') (or_empty (relationships s2)) ! j)
            \<and> flag_set (rel_inherited (filter (\<lambda>r. rel_kind r = ''Attribute'') (or_empty (relationships s1)) ! i))
              = flag_set (rel_inherited (filter (\<lambda>r. rel_kind r = ''Attribute'') (or_empty (relationships s2)) ! j))
            \<longrightarrow> field_type (fs1 ! (length (or_empty (attributes s1)) + i))
              = field_type (fs2 ! (length (or_empty (attributes s2)) + j)))"
proof (intro conjI allI impI)
  fix i j
  assume i: "i < length (or_empty (attributes s1))" and j: "j < length (or_empty (attributes s2))"
    and same: "attr_kind (or_empty (attributes s1) ! i) = attr_kind (or_empty (attributes s2) ! j)
            \<and> (attr_enum (or_empty (attributes s1) ! i) = None
                 \<longleftrightarrow> attr_enum (or_empty (attributes s2) ! j) = None)"
  note t1 = attribute_field_type [OF form_structure_attribute_at [OF assms(1) i]]
  note t2 = attribute_field_type [OF form_structure_attribute_at [OF assms(2) j]]
  from t1 t2 same show "field_type (fs1 ! i) = field_type (fs2 ! j)" by simp
next
  fix i j
  assume i: "i < length (filter (\<lambda>r. rel_kind r = ''Attribute'') (or_empty (relationships s1)))"
    and j: "j < length (filter (\<lambda>r. rel_kind r = ''Attribute'') (or_empty (relationships s2)))"
    and same: "rel_cardinality (filter (\<lambda>r. rel_kind r = ''Attribute'') (or_empty (relationships s1)) ! i)
              = rel_cardinality (filter (\<lambda>r. rel_kind r = ''Attribute'') (or_empty (relationships s2)) ! j)
            \<and> flag_set (rel_inherited (filter (\<lambda>r. rel_kind r = ''Attribute'') (or_empty (relationships s1)) ! i))
              = flag_set (rel_inherited (filter (\<lambda>r. rel_kind r = ''Attribute'') (or_empty (relationships s2)) ! j))"
  note t1 = relationship_field_type [OF form_structure_relationship_at [OF assms(1) i]]
  note t2 = relationship_field_type [OF form_structure_relationship_at [OF assms(2) j]]
  from t1 t2 same
  show "field_type (fs1 ! (length (or_empty (attributes s1)) + i))
              = field_type (fs2 ! (length (or_empty (attributes s2)) + j))" by simp
qed

theorem control_type_determined_witness:
  "getFormStructureForCreateEdit (\<lambda>kind. ''text'')
     (Some \<lparr>schema_name = ''Device'', schema_kind = ''InfraDevice'',
        attributes = Some [
          \<lparr>attr_name = ''name'', attr_kind = ''Text'', attr_label = Some ''Name'',
           attr_enum = None, attr_optional = Some False\<rparr>],
        relationships = Some [
          \<lparr>rel_name = ''site'', rel_kind = ''Attribute'', rel_peer = ''InfraSite'',
           rel_cardinality = ''one'', rel_inherited = Some True, rel_label = None\<rparr>],
        inherit_from = None\<rparr>)
     [] [] Map.empty Map.empty () JUndefined
   = Inr [\<lparr>field_name = ''name.value'', field_kind = ''Text'', field_type = ''text'',
           field_label = ''Name'', field_value = Data (JStr ''''), field_options = [],
           field_config = Some \<lparr>required = Some ''Required''\<rparr>,
           isAttribute = None, isRelationship = None\<rparr>,
          \<lparr>field_name = ''site.id'', field_kind = ''String'', field_type = ''select2step'',
           field_label = ''site'', field_value = Data (JStr ''''), field_options = [],
           field_config = None, isAttribute = None, isRelationship = None\<rparr>]
   \<and> getFormStructureForCreateEdit (\<lambda>kind. ''text'')
     (Some \<lparr>schema_name = ''Rack'', schema_kind = ''InfraRack'',
        attributes = Some [
          \<lparr>attr_name = ''height'', attr_kind = ''Text'', attr_label = None,
           attr_enum = None, attr_optional = None\<rparr>],
        relationships = Some [
          \<lparr>rel_name = ''owner'', rel_kind = ''Attribute'', rel_peer = ''CoreAccount'',
           rel_cardinality = ''one'', rel_inherited = Some True, rel_label = Some ''Owner''\<rparr>],
        inherit_from = None\<rparr>)
     [] [] Map.empty Map.empty (1::nat) (JObj [(''owner'', JStr ''abc'')])
   = Inr [\<lparr>field_name = ''height.value'', field_kind = ''Text'', field_type = ''text'',
           field_label = ''height'', field_value = Data (JStr ''''), field_options = [],
           field_config = Some \<lparr>required = Some ''''\<rparr>,
           isAttribute = None, isRelationship = None\<rparr>,
          \<lparr>field_name = ''owner.id'', field_kind = ''String'', field_type = ''select2step'',
           field_label = ''Owner'', field_value = Data (JStr ''abc''), field_options = [],
           field_config = None, isAttribute = None, isRelationship = None\<rparr>]"
  (is "?run1 = Inr ?fs1 \<and> ?run2 = Inr ?fs2")
proof -
  have run1: "?run1 = Inr ?fs1" by (simp add: deriver_defs)
  have run2: "?run2 = Inr ?fs2" by (simp add: deriver_defs)
  note w = control_type_determined [OF run1 run2]
  from w [THEN conjunct1, THEN spec, of 0] w [THEN conjunct2, THEN spec, of 0]
  have "field_type (?fs1 ! 0) = field_type (?fs2 ! 0)
      \<and> field_type (?fs1 ! 1) = field_type (?fs2 ! 1)"
    by simp
  with run1 run2 show ?thesis by simp
qed

text \<open>
  Claim C3. For every relationship of kind \<^verbatim>\<open>"Attribute"\<close> that the deriver processes:
  cardinality \<^verbatim>\<open>"many"\<close> gives the control type \<^verbatim>\<open>"multiselect"\<close>; cardinality \<^verbatim>\<open>"one"\<close>
  with the inheritance flag set gives \<^verbatim>\<open>"select2step"\<close>; every other relationship of
  cardinality \<^verbatim>\<open>"one"\<close> gives \<^verbatim>\<open>"select"\<close>.
\<close>

theorem relationship_control_type:
  assumes "getFormStructureForCreateEdit tbl (Some s) schemas generics dd sknm gsm row = Inr fs"
    and "j < length (filter (\<lambda>r. rel_kind r = ''Attribute'') (or_empty (relationships s)))"
    and "r = filter (\<lambda>r. rel_kind r = ''Attribute'') (or_empty (relationships s)) ! j"
    and "d = fs ! (length (or_empty (attributes s)) + j)"
  shows "rel_kind r = ''Attribute''
    \<and> (rel_cardinality r = ''many'' \<longrightarrow> field_type d = ''multiselect'')
    \<and> (rel_cardinality r = ''one'' \<and> flag_set (rel_inherited r) \<longrightarrow> field_type d = ''select2step'')
    \<and> (rel_cardinality r = ''one'' \<and> \<not> flag_set (rel_inherited r) \<longrightarrow> field_type d = ''select'')"
proof -
  from assms(2,3) have "r \<in> set (filter (\<lambda>r. rel_kind r = ''Attribute'') (or_empty (relationships s)))"
    using nth_mem by blast
  then have k: "rel_kind r = ''Attribute''" by simp
  from form_structure_relationship_at [OF assms(1,2)] assms(3,4)
  have "relationship_field schemas generics dd sknm row r = Inr d" by simp
  from relationship_field_type [OF this] k show ?thesis by simp
qed

theorem relationship_control_type_witness:
  "getFormStructureForCreateEdit (\<lambda>kind. ''text'')
     (Some \<lparr>schema_name = ''Device'', schema_kind = ''InfraDevice'',
        attributes = None,
        relationships = Some [
          \<lparr>rel_name = ''site'', rel_kind = ''Attribute'', rel_peer = ''InfraSite'',
           rel_cardinality = ''one'', rel_inherited = Some False, rel_label = None\<rparr>,
          \<lparr>rel_name = ''interfaces'', rel_kind = ''Component'', rel_peer = ''InfraInterface'',
           rel_cardinality = ''many'', rel_inherited = None, rel_label = None\<rparr>,
          \<lparr>rel_name = ''owner'', rel_kind = ''Attribute'', rel_peer = ''CoreOwner'',
           rel_cardinality = ''one'', rel_inherited = Some True, rel_label = None\<rparr>,
          \<lparr>rel_name = ''tags'', rel_kind = ''Attribute'', rel_peer = ''BuiltinTag'',
           rel_cardinality = ''many'', rel_inherited = None, rel_label = None\<rparr>],
        inherit_from = None\<rparr>)
     [] [] Map.empty Map.empty () JUndefined
   = Inr [\<lparr>field_name = ''site.id'', field_kind = ''String'', field_type = ''select'',
           field_label = ''site'', field_value = Data (JStr ''''), field_options = [],
           field_config = None, isAttribute = None, isRelationship = None\<rparr>,
          \<lparr>field_name = ''owner.id'', field_kind = ''String'', field_type = ''select2step'',
           field_label = ''owner'', field_value = Data (JStr ''''), field_options = [],
           field_config = None, isAttribute = None, isRelationship = None\<rparr>,
          \<lparr>field_name = ''tags.list'', field_kind = ''String'', field_type = ''multiselect'',
           field_label = ''tags'', field_value = Data (JStr ''''), field_options = [],
           field_config = None, isAttribute = None, isRelationship = None\<rparr>]"
  (is "?run = Inr ?fs")
proof -
  have run: "?run = Inr ?fs" by (simp add: deriver_defs)
  from relationship_control_type [OF run, of 0, OF _ refl refl]
    relationship_control_type [OF run, of 1, OF _ refl refl]
    relationship_control_type [OF run, of 2, OF _ refl refl]
  have "field_type (?fs ! 0) = ''select'' \<and> field_type (?fs ! 1) = ''select2step''
      \<and> field_type (?fs ! 2) = ''multiselect''"
    by simp
  with run show ?thesis by simp
qed

text \<open>
  Claim C4. For every attribute with a non-empty enum list the descriptor's control type
  is \<^verbatim>\<open>"select"\<close>, whatever the attribute's kind; for an attribute without an enum list
  it is the value of the kind table at the attribute's kind.
\<close>

theorem attribute_control_type:
  assumes "getFormStructureForCreateEdit tbl (Some s) schemas generics dd sknm gsm row = Inr fs"
    and "i < length (or_empty (attributes s))"
    and "a = or_empty (attributes s) ! i"
  shows "(\<forall>vs. attr_enum a = Some vs \<and> vs \<noteq> [] \<longrightarrow> field_type (fs ! i) = ''select'')
    \<and> (attr_enum a = None \<longrightarrow> field_type (fs ! i) = tbl (attr_kind a))"
proof -
  from form_structure_attribute_at [OF assms(1,2)] assms(3)
  have "attribute_field tbl row a = Inr (fs ! i)" by simp
  from attribute_field_type [OF this] show ?thesis by auto
qed

theorem attribute_control_type_witness:
  "getFormStructureForCreateEdit (\<lambda>kind. if kind = ''Checkbox'' then ''checkbox'' else ''text'')
     (Some \<lparr>schema_name = ''Device'', schema_kind = ''InfraDevice'',
        attributes = Some [
          \<lparr>attr_name = ''role'', attr_kind = ''Checkbox'', attr_label = None,
           attr_enum = Some [JStr ''spine''], attr_optional = None\<rparr>,
          \<lparr>attr_name = ''active'', attr_kind = ''Checkbox'', attr_label = None,
           attr_enum = None, attr_optional = None\<rparr>],
        relationships = None,
        inherit_from = None\<rparr>)
     [] [] Map.empty Map.empty () JUndefined
   = Inr [\<lparr>field_name = ''role.value'', field_kind = ''Checkbox'', field_type = ''select'',
           field_label = ''role'', field_value = Data (JStr ''''),
           field_options = [\<lparr>opt_name = JStr ''spine'', opt_id = JStr ''spine''\<rparr>],
           field_config = Some \<lparr>required = Some ''''\<rparr>,
           isAttribute = None, isRelationship = None\<rparr>,
          \<lparr>field_name = ''active.value'', field_kind = ''Checkbox'', field_type = ''checkbox'',
           field_label = ''active'', field_value = Data (JStr ''''), field_options = [],
           field_config = Some \<lparr>required = Some ''''\<rparr>,
           isAttribute = None, isRelationship = None\<rparr>]"
  (is "?run = Inr ?fs")
proof -
  have run: "?run = Inr ?fs" by (simp add: deriver_defs)
  from attribute_control_type [OF run, of 0, OF _ refl]
    attribute_control_type [OF run, of 1, OF _ refl]
  have "field_type (?fs ! 0) = ''select'' \<and> field_type (?fs ! 1) = ''checkbox''"
    by simp
  with run show ?thesis by simp
qed

text \<open>
  Claim C5. For every row that is an object holding a truthy value under the name of a
  relationship: with cardinality \<^verbatim>\<open>"one"\<close> and no inheritance the descriptor's initial
  value is the \<^verbatim>\<open>id\<close> of that value; with cardinality \<^verbatim>\<open>"one"\<close> and inheritance it is
  the value itself; with cardinality \<^verbatim>\<open>"many"\<close> the value is an array and the initial
  value is the array of the \<^verbatim>\<open>id\<close>s of its elements.
\<close>

theorem relationship_initial_value:
  assumes "getFormStructureForCreateEdit tbl (Some s) schemas generics dd sknm gsm (JObj kvs) = Inr fs"
    and "j < length (filter (\<lambda>r. rel_kind r = ''Attribute'') (or_empty (relationships s)))"
    and "r = filter (\<lambda>r. rel_kind r = ''Attribute'') (or_empty (relationships s)) ! j"
    and "d = fs ! (length (or_empty (attributes s)) + j)"
    and "map_of kvs (rel_name r) = Some v" and "truthy v"
  shows "(rel_cardinality r = ''one'' \<and> \<not> flag_set (rel_inherited r) \<longrightarrow>
            field_value d = Data (own_prop v ''id''))
    \<and> (rel_cardinality r = ''one'' \<and> flag_set (rel_inherited r) \<longrightarrow> field_value d = Data v)
    \<and> (rel_cardinality r = ''many'' \<longrightarrow>
         (\<exists>items. v = JArr items
            \<and> field_value d = Data (JArr (map (\<lambda>item. own_prop item ''id'') items))))"
proof -
  from form_structure_relationship_at [OF assms(1,2)] assms(3,4)
  have "relationship_field schemas generics dd sknm (JObj kvs) r = Inr d" by simp
  from relationship_field_value [OF this]
  have val: "relationship_value (JObj kvs) r = Inr (field_value d)" .
  note eq = val [unfolded relationship_value_row [OF assms(5,6)]]
  show ?thesis
  proof (intro conjI impI)
    assume "rel_cardinality r = ''one'' \<and> \<not> flag_set (rel_inherited r)"
    with eq show "field_value d = Data (own_prop v ''id'')" by simp
  next
    assume "rel_cardinality r = ''one'' \<and> flag_set (rel_inherited r)"
    with eq show "field_value d = Data v" by simp
  next
    assume "rel_cardinality r = ''many''"
    with eq have "map_item_id (Data v) = Inr (field_value d)" by simp
    from map_item_id_Inr [OF this]
    show "\<exists>items. v = JArr items
            \<and> field_value d = Data (JArr (map (\<lambda>item. own_prop item ''id'') items))" .
  qed
qed

theorem relationship_initial_value_witness:
  "getFormStructureForCreateEdit (\<lambda>kind. ''text'')
     (Some \<lparr>schema_name = ''Device'', schema_kind = ''InfraDevice'',
        attributes = None,
        relationships = Some [
          \<lparr>rel_name = ''site'', rel_kind = ''Attribute'', rel_peer = ''InfraSite'',
           rel_cardinality = ''one'', rel_inherited = Some False, rel_label = None\<rparr>,
          \<lparr>rel_name = ''owner'', rel_kind = ''Attribute'', rel_peer = ''CoreOwner'',
           rel_cardinality = ''one'', rel_inherited = Some True, rel_label = None\<rparr>,
          \<lparr>rel_name = ''tags'', rel_kind = ''Attribute'', rel_peer = ''BuiltinTag'',
           rel_cardinality = ''many'', rel_inherited = None, rel_label = None\<rparr>],
        inherit_from = None\<rparr>)
     [] [] Map.empty Map.empty ()
     (JObj [(''site'', JObj [(''id'', JStr ''s1'')]),
            (''owner'', JObj [(''id'', JStr ''o1'')]),
            (''tags'', JArr [JObj [(''id'', JStr ''t1'')], JObj [(''id'', JStr ''t2'')]])])
   = Inr [\<lparr>field_name = ''site.id'', field_kind = ''String'', field_type = ''select'',
           field_label = ''site'', field_value = Data (JStr ''s1''), field_options = [],
           field_config = None, isAttribute = None, isRelationship = None\<rparr>,
          \<lparr>field_name = ''owner.id'', field_kind = ''String'', field_type = ''select2step'',
           field_label = ''owner'', field_value = Data (JObj [(''id'', JStr ''o1'')]),
           field_options = [],
           field_config = None, isAttribute = None, isRelationship = None\<rparr>,
          \<lparr>field_name = ''tags.list'', field_kind = ''String'', field_type = ''multiselect'',
           field_label = ''tags'', field_value = Data (JArr [JStr ''t1'', JStr ''t2'']),
           field_options = [],
           field_config = None, isAttribute = None, isRelationship = None\<rparr>]"
  (is "?run = Inr ?fs")
proof -
  have run: "?run = Inr ?fs" by (simp add: deriver_defs)
  from relationship_initial_value [OF run, of 0 _ _ "JObj [(''id'', JStr ''s1'')]", OF _ refl refl]
    relationship_initial_value [OF run, of 1 _ _ "JObj [(''id'', JStr ''o1'')]", OF _ refl refl]
    relationship_initial_value [OF run, of 2 _ _
      "JArr [JObj [(''id'', JStr ''t1'')], JObj [(''id'', JStr ''t2'')]]", OF _ refl refl]
  have "field_value (?fs ! 0) = Data (JStr ''s1'')
      \<and> field_value (?fs ! 1) = Data (JObj [(''id'', JStr ''o1'')])
      \<and> field_value (?fs ! 2) = Data (JArr [JStr ''t1'', JStr ''t2''])"
    by simp
  with run show ?thesis by simp
qed

text \<open>
  Claim C6. With an absent schema the deriver returns the empty list and throws nothing,
  whatever the other arguments are.
\<close>

theorem absent_schema_gives_empty_list:
  "getFormStructureForCreateEdit tbl None schemas generics dd sknm gsm row = Inr []"
  by (simp add: getFormStructureForCreateEdit_def)

theorem absent_schema_gives_empty_list_witness:
  "getFormStructureForCreateEdit (\<lambda>kind. ''text'') None [] [] Map.empty Map.empty ()
     (JObj [(''name'', JObj [(''value'', JStr ''atl1'')])]) = Inr []"
  by (rule absent_schema_gives_empty_list)

text \<open>
  Claim C7, as stated. The claim counts six descriptors; \<open>getFormStructureForMetaEdit\<close>
  returns four, here for the metadata of an attribute \<^verbatim>\<open>name\<close>.
\<close>

theorem meta_edit_not_six_fields:
  "length (getFormStructureForMetaEdit (JObj [(''name'', JObj [(''owner'', JStr ''o1'')])])
     TAttribute ''name'' []) = 4
   \<and> length (getFormStructureForMetaEdit (JObj [(''name'', JObj [(''owner'', JStr ''o1'')])])
     TAttribute ''name'' []) \<noteq> 6"
  by (simp add: getFormStructureForMetaEdit_def sourceOwnerFields_def booleanFields_def)

text \<open>
  Claim C7, amended. For every row, type, name and schema list,
  \<open>getFormStructureForMetaEdit\<close> returns four descriptors: two two-step selects of kind
  \<^verbatim>\<open>"Text"\<close> for owner and source, followed by two checkboxes for the visibility and
  protection flags, each named by the given name, a dot and the field (with the prefix
  \<^verbatim>\<open>_relation__\<close> for a relationship).
\<close>

theorem meta_edit_four_descriptors:
  "length (getFormStructureForMetaEdit row type name schemaList) = 4
   \<and> map field_type (getFormStructureForMetaEdit row type name schemaList) =
       [''select2step'', ''select2step'', ''checkbox'', ''checkbox'']
   \<and> map field_kind (getFormStructureForMetaEdit row type name schemaList) =
       [''Text'', ''Text'', ''Checkbox'', ''Checkbox'']
   \<and> map field_name (getFormStructureForMetaEdit row type name schemaList) =
       (if type = TAttribute
        then [name @ ''.owner'', name @ ''.source'', name @ ''.is_visible'', name @ ''.is_protected'']
        else [name @ ''._relation__owner'', name @ ''._relation__source'',
              name @ ''._relation__is_visible'', name @ ''._relation__is_protected''])"
  by (simp add: getFormStructureForMetaEdit_def sourceOwnerFields_def booleanFields_def
      sourceOwnerFormField_def booleanFormField_def Let_def)

theorem meta_edit_four_descriptors_witness:
  "map field_type (getFormStructureForMetaEdit
      (JObj [(''site'', JObj [(''_relation__owner'', JStr ''o1'')])]) TRelationship ''site'' [])
     = [''select2step'', ''select2step'', ''checkbox'', ''checkbox'']
   \<and> map field_name (getFormStructureForMetaEdit
      (JObj [(''site'', JObj [(''_relation__owner'', JStr ''o1'')])]) TRelationship ''site'' [])
     = [''site._relation__owner'', ''site._relation__source'',
        ''site._relation__is_visible'', ''site._relation__is_protected'']"
  using meta_edit_four_descriptors
    [of "JObj [(''site'', JObj [(''_relation__owner'', JStr ''o1'')])]" TRelationship "''site''" "[]"]
  by simp



text \<open>
  Claim C10. For every attribute and every relationship of kind \<^verbatim>\<open>"Attribute"\<close> that
  the deriver processes: when the label is absent or the empty string the descriptor's
  label is the name, and when the label is a non-empty string the descriptor's label is
  that label.
\<close>

theorem descriptor_label:
  assumes "getFormStructureForCreateEdit tbl (Some s) schemas generics dd sknm gsm row = Inr fs"
  shows "(\<forall>i < length (or_empty (attributes s)).
            ((attr_label (or_empty (attributes s) ! i) = None
               \<or> attr_label (or_empty (attributes s) ! i) = Some []) \<longrightarrow>
             field_label (fs ! i) = attr_name (or_empty (attributes s) ! i))
          \<and> (\<forall>l. attr_label (or_empty (attributes s) ! i) = Some l \<and> l \<noteq> [] \<longrightarrow>
                field_label (fs ! i) = l))
    \<and> (\<forall>j < length (filter (\<lambda>r. rel_kind r = ''Attribute'') (or_empty (relationships s))).
            ((rel_label (filter (\<lambda>r. rel_kind r = ''Attribute'') (or_empty (relationships s)) ! j) = None
               \<or> rel_label (filter (\<lambda>r. rel_kind r = ''Attribute'') (or_empty (relationships s)) ! j) = Some []) \<longrightarrow>
             field_label (fs ! (length (or_empty (attributes s)) + j)) =
               rel_name (filter (\<lambda>r. rel_kind r = ''Attribute'') (or_empty (relationships s)) ! j))
          \<and> (\<forall>l. rel_label (filter (\<lambda>r. rel_kind r = ''Attribute'') (or_empty (relationships s)) ! j) = Some l
                  \<and> l \<noteq> [] \<longrightarrow>
                field_label (fs ! (length (or_empty (attributes s)) + j)) = l))"
proof (intro conjI allI impI)
  fix i assume "i < length (or_empty (attributes s))"
  note f = attribute_field_label [OF form_structure_attribute_at [OF assms this]]
  {
    assume "attr_label (or_empty (attributes s) ! i) = None
               \<or> attr_label (or_empty (attributes s) ! i) = Some []"
    with f show "field_label (fs ! i) = attr_name (or_empty (attributes s) ! i)" by auto
  }
  {
    fix l assume "attr_label (or_empty (attributes s) ! i) = Some l \<and> l \<noteq> []"
    with f show "field_label (fs ! i) = l" by auto
  }
next
  fix j assume "j < length (filter (\<lambda>r. rel_kind r = ''Attribute'') (or_empty (relationships s)))"
  note f = relationship_field_label [OF form_structure_relationship_at [OF assms this]]
  {
    assume "rel_label (filter (\<lambda>r. rel_kind r = ''Attribute'') (or_empty (relationships s)) ! j) = None
               \<or> rel_label (filter (\<lambda>r. rel_kind r = ''Attribute'') (or_empty (relationships s)) ! j) = Some []"
    with f show "field_label (fs ! (length (or_empty (attributes s)) + j)) =
               rel_name (filter (\<lambda>r. rel_kind r = ''Attribute'') (or_empty (relationships s)) ! j)"
      by auto
  }
  {
    fix l
    assume "rel_label (filter (\<lambda>r. rel_kind r = ''Attribute'') (or_empty (relationships s)) ! j) = Some l
                  \<and> l \<noteq> []"
    with f show "field_label (fs ! (length (or_empty (attributes s)) + j)) = l" by auto
  }
qed

theorem descriptor_label_witness:
  "getFormStructureForCreateEdit (\<lambda>kind. ''text'')
     (Some \<lparr>schema_name = ''Device'', schema_kind = ''InfraDevice'',
        attributes = Some [
          \<lparr>attr_name = ''name'', attr_kind = ''Text'', attr_label = Some ''Name'',
           attr_enum = None, attr_optional = None\<rparr>,
          \<lparr>attr_name = ''role'', attr_kind = ''Text'', attr_label = Some '''',
           attr_enum = None, attr_optional = None\<rparr>],
        relationships = Some [
          \<lparr>rel_name = ''site'', rel_kind = ''Attribute'', rel_peer = ''InfraSite'',
           rel_cardinality = ''one'', rel_inherited = None, rel_label = None\<rparr>,
          \<lparr>rel_name = ''tags'', rel_kind = ''Attribute'', rel_peer = ''BuiltinTag'',
           rel_cardinality = ''many'', rel_inherited = None, rel_label = Some ''Tags''\<rparr>],
        inherit_from = None\<rparr>)
     [] [] Map.empty Map.empty () JUndefined
   = Inr [\<lparr>field_name = ''name.value'', field_kind = ''Text'', field_type = ''text'',
           field_label = ''Name'', field_value = Data (JStr ''''), field_options = [],
           field_config = Some \<lparr>required = Some ''''\<rparr>,
           isAttribute = None, isRelationship = None\<rparr>,
          \<lparr>field_name = ''role.value'', field_kind = ''Text'', field_type = ''text'',
           field_label = ''role'', field_value = Data (JStr ''''), field_options = [],
           field_config = Some \<lparr>required = Some ''''\<rparr>,
           isAttribute = None, isRelationship = None\<rparr>,
          \<lparr>field_name = ''site.id'', field_kind = ''String'', field_type = ''select'',
           field_label = ''site'', field_value = Data (JStr ''''), field_options = [],
           field_config = None, isAttribute = None, isRelationship = None\<rparr>,
          \<lparr>field_name = ''tags.list'', field_kind = ''String'', field_type = ''multiselect'',
           field_label = ''Tags'', field_value = Data (JStr ''''), field_options = [],
           field_config = None, isAttribute = None, isRelationship = None\<rparr>]"
  (is "?run = Inr ?fs")
proof -
  have run: "?run = Inr ?fs" by (simp add: deriver_defs)
  note w = descriptor_label [OF run]
  from w [THEN conjunct1, THEN spec, of 0] w [THEN conjunct1, THEN spec, of 1]
    w [THEN conjunct2, THEN spec, of 0] w [THEN conjunct2, THEN spec, of 1]
  have "field_label (?fs ! 0) = ''Name'' \<and> field_label (?fs ! 1) = ''role''
      \<and> field_label (?fs ! 2) = ''site'' \<and> field_label (?fs ! 3) = ''Tags''"
    by simp
  with run show ?thesis by simp
qed

end
